(* ===== verification/TTS_Prelude.thy ===== *)
theory TTS_Prelude
  imports Complex_Main "HOL-Library.Sublist"
begin

text \<open>
  Shared vocabulary of the development: the types that name Go values (byte strings,
  opaque error values, exit codes), the theorem collections the component theories feed,
  and generic lemmas on characters and lists that several components use.
  Go strings and byte slices are both byte sequences; Isabelle's \<^typ>\<open>char\<close> is a byte,
  so both are \<^typ>\<open>char list\<close>.
\<close>

named_theorems go_eval
  "rewrite rules that evaluate the modelled Go library functions on concrete inputs"

named_theorems model_defs
  "definitions of the fixed constants of the program (voice names, exit codes, URLs)"

type_synonym bytes = "char list"

text \<open>
  An error value of a library or remote call that the program does not inspect: it is
  passed on or printed.  Its message is kept so that distinct errors stay distinct.
\<close>

datatype go_error = GoError string

text \<open>Process exit status, as passed to \<open>os.Exit\<close>.\<close>

type_synonym exit_code = int

subsection \<open>Characters\<close>

text \<open>
  Equalities between computed characters (\<open>char_of n\<close>) and literals are decided
  through their byte value; with this rule in the collection \<open>simp\<close> evaluates
  character arithmetic on concrete strings.
\<close>

lemmas char_of_literal [go_eval] = char_of_eq_iff

subsection \<open>Lists\<close>

lemma map_eq_literal_Cons:
  "map f xs = y # ys \<longleftrightarrow> (\<exists>x xs'. xs = x # xs' \<and> f x = y \<and> map f xs' = ys)"
  by (cases xs) auto

end
