(* ===== verification/Go_Lib.thy ===== *)
theory Go_Lib
  imports TTS_Prelude
begin

text \<open>
  The parts of Go's runtime and standard library whose behaviour the program's decisions
  depend on: IEEE-754 comparison of \<open>float64\<close> values (the range checks of
  \<open>makeSpeechOptions\<close>), \<open>strings.ToLower\<close> (the voice token and the extension are
  matched case-insensitively) and \<open>filepath.Ext\<close> (the output format is chosen by it).
  They are not under \<open>src/\<close>; they are modelled from Go's documentation and sources.
\<close>

section \<open>float64 values and their comparisons\<close>

text \<open>
  A \<open>float64\<close> is a finite value, an infinity or NaN.  Finite values are modelled by
  the real number they denote (a superset of the representable ones: every theorem over
  all finite reals holds in particular for the doubles; the signed zeros compare equal and
  are one value here).  Go's \<open><\<close> and \<open>>\<close> are IEEE comparisons: every comparison
  with NaN is false, and an infinity compares with the finite values on its side.
\<close>

datatype f64 = Fin real | PosInf | NegInf | NaN

fun f64_lt :: "f64 \<Rightarrow> f64 \<Rightarrow> bool" where
  "f64_lt (Fin a) (Fin b) = (a < b)"
| "f64_lt NegInf (Fin b) = True"
| "f64_lt NegInf PosInf = True"
| "f64_lt (Fin a) PosInf = True"
| "f64_lt x y = False"

lemma f64_lt_NaN [simp]: "\<not> f64_lt NaN x" "\<not> f64_lt x NaN"
  by (cases x; simp)+

lemma f64_lt_irrefl [simp]: "\<not> f64_lt x x"
  by (cases x) simp_all

lemma f64_lt_trans: "f64_lt x y \<Longrightarrow> f64_lt y z \<Longrightarrow> f64_lt x z"
  by (cases x; cases y; cases z) auto

text \<open>
  The guard \<open>lo > x || x > hi\<close> of the code, and what its negation admits: a finite
  value inside the closed interval, or NaN.
\<close>

definition f64_out_of_range :: "real \<Rightarrow> real \<Rightarrow> f64 \<Rightarrow> bool" where
  "f64_out_of_range lo hi x \<longleftrightarrow> f64_lt x (Fin lo) \<or> f64_lt (Fin hi) x"

lemma f64_out_of_range_simps [simp]:
  "f64_out_of_range lo hi (Fin r) \<longleftrightarrow> r < lo \<or> hi < r"
  "f64_out_of_range lo hi PosInf"
  "f64_out_of_range lo hi NegInf"
  "\<not> f64_out_of_range lo hi NaN"
  by (simp_all add: f64_out_of_range_def)

lemma f64_in_range_iff:
  "\<not> f64_out_of_range lo hi x \<longleftrightarrow> x = NaN \<or> (\<exists>r. x = Fin r \<and> lo \<le> r \<and> r \<le> hi)"
  by (cases x) auto

section \<open>strings.ToLower\<close>

text \<open>
  \<open>strings.ToLower\<close> maps each upper-case ASCII letter to its lower-case letter by
  adding \<open>'a' - 'A'\<close> = 32 and leaves every other ASCII byte unchanged.  Bytes of
  128 and above are left unchanged here; Go lower-cases the runes they encode instead.
  The model differs from Go only on non-ASCII input, and the program compares the result
  only with ASCII tokens: the only non-ASCII runes whose lower case is ASCII are U+0130
  (to \<open>i\<close>) and U+212A (to \<open>k\<close>), and neither letter occurs in a voice token or in
  \<open>.wav\<close>, \<open>.mp3\<close>, so every comparison the program makes has the same outcome.
\<close>

definition ascii_lower :: "char \<Rightarrow> char" where
  "ascii_lower c =
     (let n = (of_char c :: nat) in if 65 \<le> n \<and> n \<le> 90 then char_of (n + 32) else c)"

definition go_ToLower :: "string \<Rightarrow> string" where
  "go_ToLower s = map ascii_lower s"

text \<open>The inverse direction, used to state case-insensitivity (not called by the code).\<close>

definition ascii_upper :: "char \<Rightarrow> char" where
  "ascii_upper c =
     (let n = (of_char c :: nat) in if 97 \<le> n \<and> n \<le> 122 then char_of (n - 32) else c)"

lemma of_char_ascii_lower:
  "(of_char (ascii_lower c) :: nat) =
     (if 65 \<le> (of_char c :: nat) \<and> (of_char c :: nat) \<le> 90 then of_char c + 32 else of_char c)"
  by (simp add: ascii_lower_def Let_def)

lemma ascii_lower_idem [simp]: "ascii_lower (ascii_lower c) = ascii_lower c"
proof -
  have "(of_char (ascii_lower (ascii_lower c)) :: nat) = of_char (ascii_lower c)"
    by (simp add: of_char_ascii_lower)
  then show ?thesis by simp
qed

lemma ascii_lower_upper [simp]: "ascii_lower (ascii_upper c) = ascii_lower c"
proof (cases "97 \<le> (of_char c :: nat) \<and> (of_char c :: nat) \<le> 122")
  case True
  then have "(of_char c :: nat) - 32 < 256" by linarith
  with True have "(of_char (ascii_upper c) :: nat) = of_char c - 32"
    by (simp add: ascii_upper_def Let_def)
  moreover from True have "65 \<le> (of_char c :: nat) - 32 \<and> (of_char c :: nat) - 32 \<le> 90"
    by linarith
  ultimately have "(of_char (ascii_lower (ascii_upper c)) :: nat) = of_char c"
    using True by (simp add: of_char_ascii_lower)
  moreover from True have "(of_char (ascii_lower c) :: nat) = of_char c"
    by (simp add: of_char_ascii_lower)
  ultimately show ?thesis by simp
next
  case False
  then have "ascii_upper c = c" by (auto simp: ascii_upper_def Let_def)
  then show ?thesis by simp
qed

lemma go_ToLower_idem [simp]: "go_ToLower (go_ToLower s) = go_ToLower s"
  by (simp add: go_ToLower_def)

lemma go_ToLower_upper [simp]: "go_ToLower (map ascii_upper s) = go_ToLower s"
  by (simp add: go_ToLower_def)

lemma go_ToLower_Nil [simp]: "go_ToLower s = [] \<longleftrightarrow> s = []"
  by (simp add: go_ToLower_def)

lemma length_go_ToLower [simp]: "length (go_ToLower s) = length s"
  by (simp add: go_ToLower_def)

section \<open>filepath.Ext\<close>

text \<open>
  \<^verbatim>\<open>
  func Ext(path string) string {
      for i := len(path) - 1; i >= 0 && !os.IsPathSeparator(path[i]); i-- {
          if path[i] == '.' { return path[i:] }
      }
      return ""
  }
  \<close>
  The loop walks the path backwards.  The model walks the reversed path forwards,
  collecting the bytes already passed (the suffix \<open>path[i+1:]\<close>) in \<open>acc\<close>.  The
  separator is \<open>'/'\<close> (Unix).
\<close>

fun ext_scan :: "char list \<Rightarrow> char list \<Rightarrow> char list" where
  "ext_scan [] acc = []"
| "ext_scan (c # cs) acc =
     (if c = CHR ''/'' then []
      else if c = CHR ''.'' then c # acc
      else ext_scan cs (c # acc))"

definition go_Ext :: "string \<Rightarrow> string" where
  "go_Ext path = ext_scan (rev path) []"

lemma ext_scan_cases:
  "ext_scan cs acc = [] \<or>
   (\<exists>pre post. cs = pre @ CHR ''.'' # post \<and> CHR ''.'' \<notin> set pre \<and> CHR ''/'' \<notin> set pre \<and>
      ext_scan cs acc = CHR ''.'' # rev pre @ acc)"
proof (induction cs arbitrary: acc)
  case Nil
  then show ?case by simp
next
  case (Cons c cs)
  show ?case
  proof (cases "c = CHR ''/'' \<or> c = CHR ''.''")
    case True
    then show ?thesis by force
  next
    case False
    from Cons.IH [of "c # acc"] show ?thesis
    proof
      assume "ext_scan cs (c # acc) = []"
      with False show ?thesis by simp
    next
      assume "\<exists>pre post. cs = pre @ CHR ''.'' # post \<and> CHR ''.'' \<notin> set pre \<and>
        CHR ''/'' \<notin> set pre \<and> ext_scan cs (c # acc) = CHR ''.'' # rev pre @ c # acc"
      then obtain pre post where "cs = pre @ CHR ''.'' # post" "CHR ''.'' \<notin> set pre"
        "CHR ''/'' \<notin> set pre" "ext_scan cs (c # acc) = CHR ''.'' # rev pre @ c # acc"
        by blast
      with False have "c # cs = (c # pre) @ CHR ''.'' # post \<and> CHR ''.'' \<notin> set (c # pre) \<and>
          CHR ''/'' \<notin> set (c # pre) \<and> ext_scan (c # cs) acc = CHR ''.'' # rev (c # pre) @ acc"
        by auto
      then show ?thesis by blast
    qed
  qed
qed

lemma ext_scan_last_dot:
  assumes "CHR ''.'' \<notin> set pre" "CHR ''/'' \<notin> set pre"
  shows "ext_scan (pre @ CHR ''.'' # post) acc = CHR ''.'' # rev pre @ acc"
  using assms by (induction pre arbitrary: acc) auto

lemma ext_scan_no_dot:
  assumes "CHR ''.'' \<notin> set cs"
  shows "ext_scan cs acc = []"
  using assms by (induction cs arbitrary: acc) auto

lemma go_Ext_suffix: "suffix (go_Ext p) p"
proof -
  consider "go_Ext p = []"
    | pre post where "rev p = pre @ CHR ''.'' # post" "go_Ext p = CHR ''.'' # rev pre"
    using ext_scan_cases [of "rev p" "[]"] unfolding go_Ext_def by auto
  then show ?thesis
  proof cases
    case 1
    then show ?thesis by simp
  next
    case 2
    then have "p = rev post @ CHR ''.'' # rev pre"
      by (metis rev_append rev_rev_ident rev.simps(2) append_assoc append_Cons append_Nil)
    with 2 show ?thesis by (simp add: suffix_def)
  qed
qed

lemma go_Ext_shape:
  "go_Ext p = [] \<or>
   (\<exists>e. go_Ext p = CHR ''.'' # e \<and> CHR ''.'' \<notin> set e \<and> CHR ''/'' \<notin> set e)"
  using ext_scan_cases [of "rev p" "[]"] unfolding go_Ext_def by auto

lemma go_Ext_append:
  assumes "CHR ''.'' \<notin> set e" "CHR ''/'' \<notin> set e"
  shows "go_Ext (p @ CHR ''.'' # e) = CHR ''.'' # e"
  using ext_scan_last_dot [of "rev e" "rev p" "[]"] assms by (simp add: go_Ext_def)

end
