(* ===== verification/Speaker.thy ===== *)
theory Speaker
  imports Go_Lib
begin

text \<open>
  Model of \<open>src/speech/speaker.go\<close>: the ten voice identifiers, the audio encodings,
  the \<open>SpeechOptions\<close> struct, the process-wide \<open>speaker\<close> singleton and
  \<open>NewSpeechClient\<close> that creates it lazily, \<open>NewRequest\<close> that shapes the
  synthesis request, and \<open>Speaker.Run\<close> that performs the remote call.
  The remote service is outside the program: the connection constructor
  (\<open>texttospeech.NewClient\<close>) and the \<open>SynthesizeSpeech\<close> call are oracles, functions
  supplied by the caller, so that every theorem holds whatever the service answers.
\<close>

section \<open>Constants and data\<close>

definition VoiceStandardA :: string where [model_defs]: "VoiceStandardA = ''ru-RU-Standard-A''"
definition VoiceStandardB :: string where [model_defs]: "VoiceStandardB = ''ru-RU-Standard-B''"
definition VoiceStandardC :: string where [model_defs]: "VoiceStandardC = ''ru-RU-Standard-C''"
definition VoiceStandardD :: string where [model_defs]: "VoiceStandardD = ''ru-RU-Standard-D''"
definition VoiceStandardE :: string where [model_defs]: "VoiceStandardE = ''ru-RU-Standard-E''"
definition VoiceWaveNetA :: string where [model_defs]: "VoiceWaveNetA = ''ru-RU-Wavenet-A''"
definition VoiceWaveNetB :: string where [model_defs]: "VoiceWaveNetB = ''ru-RU-Wavenet-B''"
definition VoiceWaveNetC :: string where [model_defs]: "VoiceWaveNetC = ''ru-RU-Wavenet-C''"
definition VoiceWaveNetD :: string where [model_defs]: "VoiceWaveNetD = ''ru-RU-Wavenet-D''"
definition VoiceWaveNetE :: string where [model_defs]: "VoiceWaveNetE = ''ru-RU-Wavenet-E''"

text \<open>The identifiers the service is asked for; every request the program builds names one.\<close>

definition known_voices :: "string list" where
  "known_voices = [VoiceStandardA, VoiceStandardB, VoiceStandardC, VoiceStandardD, VoiceStandardE,
                   VoiceWaveNetA, VoiceWaveNetB, VoiceWaveNetC, VoiceWaveNetD, VoiceWaveNetE]"

text \<open>
  \<open>texttospeechpb.AudioEncoding\<close>, the protobuf enum (generated code): its values and
  their wire numbers.  The program names three of them.
\<close>

datatype audio_encoding =
  AUDIO_ENCODING_UNSPECIFIED | LINEAR16 | MP3 | OGG_OPUS | MULAW | ALAW

fun audio_encoding_number :: "audio_encoding \<Rightarrow> int" where
  "audio_encoding_number AUDIO_ENCODING_UNSPECIFIED = 0"
| "audio_encoding_number LINEAR16 = 1"
| "audio_encoding_number MP3 = 2"
| "audio_encoding_number OGG_OPUS = 3"
| "audio_encoding_number MULAW = 5"
| "audio_encoding_number ALAW = 6"

definition AudioEncoding_Linear16 :: audio_encoding where [model_defs]: "AudioEncoding_Linear16 = LINEAR16"
definition AudioEncoding_MP3 :: audio_encoding where [model_defs]: "AudioEncoding_MP3 = MP3"
definition AudioEncoding_OGG :: audio_encoding where [model_defs]: "AudioEncoding_OGG = OGG_OPUS"

record SpeechOptions =
  LanguageCode :: string
  VoiceName :: string
  AudioEncoding :: audio_encoding
  AudioSpeechRate :: f64
  AudioPitch :: f64

subsection \<open>The synthesis request (texttospeechpb messages)\<close>

datatype ssml_voice_gender = SSML_VOICE_GENDER_UNSPECIFIED | MALE | FEMALE | NEUTRAL

text \<open>\<open>SynthesisInput.InputSource\<close> is a protobuf \<open>oneof\<close>: plain text or SSML.\<close>

datatype synthesis_input = SynthesisInput_Text string | SynthesisInput_Ssml string

record VoiceSelectionParams =
  vsp_LanguageCode :: string
  vsp_Name :: string
  vsp_SsmlGender :: ssml_voice_gender

record AudioConfig =
  ac_AudioEncoding :: audio_encoding
  ac_SpeakingRate :: f64
  ac_Pitch :: f64

record SynthesizeSpeechRequest =
  req_Input :: synthesis_input
  req_Voice :: VoiceSelectionParams
  req_AudioConfig :: AudioConfig

record SynthesizeSpeechResponse =
  AudioContent :: bytes

section \<open>NewRequest\<close>

text \<open>
  A nil options pointer is replaced by the defaults; the fields the literal leaves out
  (\<open>AudioSpeechRate\<close>, \<open>AudioPitch\<close>) take Go's zero value \<open>0.0\<close>.
\<close>

definition default_SpeechOptions :: SpeechOptions where
  "default_SpeechOptions =
     \<lparr>LanguageCode = ''ru-RU'', VoiceName = VoiceStandardA, AudioEncoding = AudioEncoding_MP3,
      AudioSpeechRate = Fin 0, AudioPitch = Fin 0\<rparr>"

definition NewRequest :: "string \<Rightarrow> SpeechOptions option \<Rightarrow> SynthesizeSpeechRequest" where
  "NewRequest text opt =
     (let opt' = (case opt of None \<Rightarrow> default_SpeechOptions | Some o' \<Rightarrow> o') in
      \<lparr>req_Input = SynthesisInput_Text text,
       req_Voice = \<lparr>vsp_LanguageCode = LanguageCode opt', vsp_Name = VoiceName opt',
                    vsp_SsmlGender = NEUTRAL\<rparr>,
       req_AudioConfig = \<lparr>ac_AudioEncoding = AudioEncoding opt',
                          ac_SpeakingRate = AudioSpeechRate opt', ac_Pitch = AudioPitch opt'\<rparr>\<rparr>)"

text \<open>Reading the options back out of a request: the abstraction used for the round trip.\<close>

definition options_of_request :: "SynthesizeSpeechRequest \<Rightarrow> SpeechOptions" where
  "options_of_request r =
     \<lparr>LanguageCode = vsp_LanguageCode (req_Voice r), VoiceName = vsp_Name (req_Voice r),
      AudioEncoding = ac_AudioEncoding (req_AudioConfig r),
      AudioSpeechRate = ac_SpeakingRate (req_AudioConfig r),
      AudioPitch = ac_Pitch (req_AudioConfig r)\<rparr>"

definition request_text :: "SynthesizeSpeechRequest \<Rightarrow> string option" where
  "request_text r = (case req_Input r of SynthesisInput_Text t \<Rightarrow> Some t | _ \<Rightarrow> None)"

section \<open>The speaker singleton\<close>

text \<open>
  A connection to the service is named by the number the connection oracle returns.
  The package variable \<open>var speaker *Speaker\<close> is the field \<open>speaker\<close> of the
  state (\<open>None\<close> is nil).  Two fields are bookkeeping of the model, not program
  variables: \<open>attempts\<close> counts calls of \<open>texttospeech.NewClient\<close> (the oracle is
  indexed by it, so successive attempts may answer differently) and \<open>dialed\<close> lists, in
  order, every connection that was successfully created.
\<close>

type_synonym client = nat

record Speaker =
  sp_client :: client

record speaker_state =
  speaker :: "Speaker option"
  attempts :: nat
  dialed :: "client list"

type_synonym dial_oracle = "nat \<Rightarrow> go_error + client"

definition speaker_init :: speaker_state where
  "speaker_init = \<lparr>speaker = None, attempts = 0, dialed = []\<rparr>"

definition NewSpeechClient :: "dial_oracle \<Rightarrow> speaker_state \<Rightarrow> (go_error + Speaker) \<times> speaker_state" where
  "NewSpeechClient dial s =
     (case speaker s of
        Some sp \<Rightarrow> (Inr sp, s)
      | None \<Rightarrow>
          (case dial (attempts s) of
             Inl err \<Rightarrow> (Inl err, s\<lparr>attempts := Suc (attempts s)\<rparr>)
           | Inr c \<Rightarrow>
               (let sp = \<lparr>sp_client = c\<rparr>
                in (Inr sp, s\<lparr>speaker := Some sp, attempts := Suc (attempts s),
                              dialed := dialed s @ [c]\<rparr>))))"

section \<open>Speaker.Run\<close>

text \<open>The remote call \<open>SynthesizeSpeech\<close> on a given connection, as an oracle.\<close>

type_synonym synth_oracle = "client \<Rightarrow> SynthesizeSpeechRequest \<Rightarrow> go_error + SynthesizeSpeechResponse"

definition Speaker_Run :: "synth_oracle \<Rightarrow> Speaker \<Rightarrow> SynthesizeSpeechRequest \<Rightarrow> go_error + bytes" where
  "Speaker_Run synth s req =
     (case synth (sp_client s) req of
        Inl err \<Rightarrow> Inl err
      | Inr resp \<Rightarrow> Inr (AudioContent resp))"

section \<open>The singleton invariant and the reachable states\<close>

text \<open>
  The invariant of the singleton: the connections created so far are exactly the one the
  package variable holds, or none while it is nil.
\<close>

definition singleton_inv :: "speaker_state \<Rightarrow> bool" where
  "singleton_inv s \<longleftrightarrow> dialed s = (case speaker s of None \<Rightarrow> [] | Some sp \<Rightarrow> [sp_client sp])"

text \<open>
  The states of the process reachable by any sequence of \<open>NewSpeechClient\<close> calls, each
  answered by any connection oracle.
\<close>

inductive speaker_reach :: "speaker_state \<Rightarrow> bool" where
  init: "speaker_reach speaker_init"
| call: "speaker_reach s \<Longrightarrow> speaker_reach (snd (NewSpeechClient dial s))"

section \<open>Properties of the speaker component\<close>

subsection \<open>Requests\<close>

lemma options_of_NewRequest_Some [simp]:
  "options_of_request (NewRequest text (Some opt)) = opt"
  by (simp add: NewRequest_def options_of_request_def)

lemma request_text_NewRequest [simp]: "request_text (NewRequest text opt) = Some text"
  by (simp add: NewRequest_def request_text_def Let_def)

lemma gender_NewRequest [simp]: "vsp_SsmlGender (req_Voice (NewRequest text opt)) = NEUTRAL"
  by (simp add: NewRequest_def Let_def)

subsection \<open>The singleton\<close>

lemma singleton_inv_init: "singleton_inv speaker_init"
  by (simp add: singleton_inv_def speaker_init_def)

lemma NewSpeechClient_singleton_inv:
  "singleton_inv s \<Longrightarrow> singleton_inv (snd (NewSpeechClient dial s))"
  by (auto simp: NewSpeechClient_def singleton_inv_def Let_def
           split: option.splits sum.splits)

lemma NewSpeechClient_Inr_speaker:
  "NewSpeechClient dial s = (Inr sp, s') \<Longrightarrow> speaker s' = Some sp"
  by (auto simp: NewSpeechClient_def Let_def split: option.splits sum.splits)

lemma NewSpeechClient_keeps_speaker:
  "speaker s = Some sp \<Longrightarrow> NewSpeechClient dial s = (Inr sp, s)"
  by (simp add: NewSpeechClient_def)

lemma speaker_reach_inv: "speaker_reach s \<Longrightarrow> singleton_inv s"
proof (induction rule: speaker_reach.induct)
  case init
  show ?case by (rule singleton_inv_init)
next
  case (call s dial)
  from call.IH show ?case by (rule NewSpeechClient_singleton_inv)
qed

text \<open>
  C7.  However many times \<open>NewSpeechClient\<close> runs in one process, and whatever each
  connection attempt answers, at most one connection to the service is ever created, and
  once the singleton is set it holds exactly that connection.
\<close>

theorem speaker_reach_at_most_one:
  "speaker_reach s \<Longrightarrow>
     length (dialed s) \<le> 1 \<and> (\<forall>sp. speaker s = Some sp \<longrightarrow> dialed s = [sp_client sp])"
proof -
  assume "speaker_reach s"
  then have "singleton_inv s" by (rule speaker_reach_inv)
  then show ?thesis by (auto simp: singleton_inv_def split: option.splits)
qed

lemma speaker_reach_at_most_one_witness:
  "length (dialed (snd (NewSpeechClient (\<lambda>_. Inr 8)
                        (snd (NewSpeechClient (\<lambda>_. Inr 7) speaker_init))))) \<le> 1 \<and>
   dialed (snd (NewSpeechClient (\<lambda>_. Inr 8)
                  (snd (NewSpeechClient (\<lambda>_. Inr 7) speaker_init)))) = [7]"
proof -
  let ?s = "snd (NewSpeechClient (\<lambda>_. Inr 8) (snd (NewSpeechClient (\<lambda>_. Inr 7) speaker_init)))"
  have r: "speaker_reach ?s" by (intro speaker_reach.call speaker_reach.init)
  have sp: "speaker ?s = Some \<lparr>sp_client = 7\<rparr>"
    by (simp add: NewSpeechClient_def speaker_init_def Let_def)
  from speaker_reach_at_most_one [OF r] sp show ?thesis by simp
qed

text \<open>
  C8.  \<open>NewSpeechClient\<close> is get-or-create: once a call has returned a speaker, every
  later call returns that same speaker and leaves the state unchanged, without another
  connection attempt, whatever the connection oracle would answer.
\<close>

theorem NewSpeechClient_idempotent:
  "NewSpeechClient dial s = (Inr sp, s') \<Longrightarrow> NewSpeechClient dial' s' = (Inr sp, s')"
  by (rule NewSpeechClient_keeps_speaker) (rule NewSpeechClient_Inr_speaker)

lemma NewSpeechClient_idempotent_witness:
  "NewSpeechClient (\<lambda>_. Inl (GoError ''unreachable''))
     (speaker_init\<lparr>speaker := Some \<lparr>sp_client = 3\<rparr>, attempts := 1, dialed := [3]\<rparr>) =
   (Inr \<lparr>sp_client = 3\<rparr>, speaker_init\<lparr>speaker := Some \<lparr>sp_client = 3\<rparr>, attempts := 1, dialed := [3]\<rparr>)"
proof -
  have "NewSpeechClient (\<lambda>_. Inr 3) speaker_init =
        (Inr \<lparr>sp_client = 3\<rparr>, speaker_init\<lparr>speaker := Some \<lparr>sp_client = 3\<rparr>, attempts := 1, dialed := [3]\<rparr>)"
    by (simp add: NewSpeechClient_def speaker_init_def Let_def)
  then show ?thesis by (rule NewSpeechClient_idempotent)
qed

text \<open>
  C14.  \<open>NewRequest\<close> carries the text and the options into the request unchanged: the
  input is the text as plain text (not SSML), the voice selection and audio configuration
  read back give the options again, and the gender asked for is always NEUTRAL.
\<close>

theorem NewRequest_roundtrip:
  "options_of_request (NewRequest text (Some opt)) = opt \<and>
   req_Input (NewRequest text (Some opt)) = SynthesisInput_Text text \<and>
   vsp_SsmlGender (req_Voice (NewRequest text (Some opt))) = NEUTRAL"
  by (simp add: NewRequest_def options_of_request_def)

end
