(* ===== verification/Speech_Options.thy ===== *)
theory Speech_Options
  imports Speaker
begin

text \<open>
  Model of \<open>makeSpeechOptions\<close> in \<open>src/cmd/cmd.go\<close>, the option validator: it turns
  the (translated) text, the voice token, the output path and the rate and pitch flags into
  a \<open>SpeechOptions\<close> value or the first error among: empty text, unknown voice, rate out
  of range, pitch out of range, unsupported output extension.  The theory also states the
  validator's contract from the specification (a table of voice tokens, the closed ranges,
  the extension table) and proves that the code implements it, and where it does not (NaN).
\<close>

section \<open>The validator\<close>

text \<open>The errors \<open>makeSpeechOptions\<close> returns, one per \<open>fmt.Errorf\<close>, with their operands.\<close>

datatype opt_error =
    ErrTextRequired
  | ErrInvalidVoice string
  | ErrSpeechRate f64
  | ErrPitch f64
  | ErrUnsupportedFormat string

text \<open>The \<open>switch\<close> on the lower-cased voice token, in the source's case order.\<close>

definition voice_switch :: "string \<Rightarrow> string option" where
  "voice_switch v =
     (if v = ''stand-a'' then Some VoiceStandardA
      else if v = ''stand-b'' then Some VoiceStandardB
      else if v = ''stand-c'' then Some VoiceStandardC
      else if v = ''stand-d'' then Some VoiceStandardD
      else if v = ''stand-e'' then Some VoiceStandardE
      else if v = ''wave-a'' then Some VoiceWaveNetA
      else if v = ''wave-b'' then Some VoiceWaveNetB
      else if v = ''wave-c'' then Some VoiceWaveNetC
      else if v = ''wave-d'' then Some VoiceWaveNetD
      else if v = ''wave-e'' then Some VoiceWaveNetE
      else None)"

definition makeSpeechOptions ::
  "string \<Rightarrow> string \<Rightarrow> string \<Rightarrow> f64 \<Rightarrow> f64 \<Rightarrow> opt_error + SpeechOptions" where
  "makeSpeechOptions text voice out rate pitch =
     (if text = [] then Inl ErrTextRequired
      else
        (let v = go_ToLower voice in
         case voice_switch v of
           None \<Rightarrow> Inl (ErrInvalidVoice v)
         | Some voiceName \<Rightarrow>
             if f64_lt rate (Fin 0.25) \<or> f64_lt (Fin 4.0) rate then Inl (ErrSpeechRate rate)
             else if f64_lt pitch (Fin (-20.0)) \<or> f64_lt (Fin 20.0) pitch then Inl (ErrPitch pitch)
             else
               (let ext = go_ToLower (go_Ext out) in
                if ext = ''.wav'' then
                  Inr \<lparr>LanguageCode = ''ru-RU'', VoiceName = voiceName,
                       AudioEncoding = AudioEncoding_Linear16,
                       AudioSpeechRate = rate, AudioPitch = pitch\<rparr>
                else if ext = ''.mp3'' then
                  Inr \<lparr>LanguageCode = ''ru-RU'', VoiceName = voiceName,
                       AudioEncoding = AudioEncoding_MP3,
                       AudioSpeechRate = rate, AudioPitch = pitch\<rparr>
                else Inl (ErrUnsupportedFormat out))))"

section \<open>The contract of the specification\<close>

text \<open>
  The specification's view of the validator (section 4.1): ten tokens, five standard and
  five WaveNet, each naming a fixed voice; closed ranges \<open>[0.25, 4.0]\<close> for the rate and
  \<open>[-20.0, 20.0]\<close> for the pitch; the encoding chosen by the extension.
\<close>

definition voice_table :: "(string \<times> string) list" where
  "voice_table =
     [(''stand-a'', ''ru-RU-Standard-A''), (''stand-b'', ''ru-RU-Standard-B''),
      (''stand-c'', ''ru-RU-Standard-C''), (''stand-d'', ''ru-RU-Standard-D''),
      (''stand-e'', ''ru-RU-Standard-E''),
      (''wave-a'', ''ru-RU-Wavenet-A''), (''wave-b'', ''ru-RU-Wavenet-B''),
      (''wave-c'', ''ru-RU-Wavenet-C''), (''wave-d'', ''ru-RU-Wavenet-D''),
      (''wave-e'', ''ru-RU-Wavenet-E'')]"

definition ext_table :: "(string \<times> audio_encoding) list" where
  "ext_table = [(''.wav'', LINEAR16), (''.mp3'', MP3)]"

definition rate_ok :: "real \<Rightarrow> bool" where
  "rate_ok r \<longleftrightarrow> 0.25 \<le> r \<and> r \<le> 4"

definition pitch_ok :: "real \<Rightarrow> bool" where
  "pitch_ok p \<longleftrightarrow> -20 \<le> p \<and> p \<le> 20"

text \<open>
  What every options value handed to the speech client satisfies: the Russian language
  code, one of the ten voices, an encoding the program can select, and rate and pitch
  that passed the range guards.
\<close>

definition options_wf :: "SpeechOptions \<Rightarrow> bool" where
  "options_wf opt \<longleftrightarrow>
     LanguageCode opt = ''ru-RU'' \<and> VoiceName opt \<in> set known_voices \<and>
     AudioEncoding opt \<in> {LINEAR16, MP3} \<and>
     \<not> f64_out_of_range 0.25 4 (AudioSpeechRate opt) \<and>
     \<not> f64_out_of_range (-20) 20 (AudioPitch opt)"

section \<open>The validator against its contract\<close>

text \<open>The \<open>switch\<close> of the code is the specification's token table.\<close>

lemma voice_switch_table: "voice_switch = map_of voice_table"
  by (rule ext) (simp add: voice_switch_def voice_table_def model_defs)

lemma voice_table_known: "map_of voice_table v = Some n \<Longrightarrow> n \<in> set known_voices"
  by (auto simp: voice_table_def known_voices_def model_defs split: if_splits)

text \<open>
  The validator in the vocabulary of the contract: the same decisions, with the switch as
  the token table, the range guards as \<^const>\<open>f64_out_of_range\<close> and the extension
  switch as the extension table.  Every property below is read off this form.
\<close>

lemma makeSpeechOptions_contract_form:
  "makeSpeechOptions text voice out rate pitch =
     (if text = [] then Inl ErrTextRequired
      else case map_of voice_table (go_ToLower voice) of
        None \<Rightarrow> Inl (ErrInvalidVoice (go_ToLower voice))
      | Some n \<Rightarrow>
          if f64_out_of_range 0.25 4 rate then Inl (ErrSpeechRate rate)
          else if f64_out_of_range (-20) 20 pitch then Inl (ErrPitch pitch)
          else case map_of ext_table (go_ToLower (go_Ext out)) of
            None \<Rightarrow> Inl (ErrUnsupportedFormat out)
          | Some enc \<Rightarrow> Inr \<lparr>LanguageCode = ''ru-RU'', VoiceName = n, AudioEncoding = enc,
                              AudioSpeechRate = rate, AudioPitch = pitch\<rparr>)"
  by (simp add: makeSpeechOptions_def voice_switch_table f64_out_of_range_def ext_table_def
      model_defs Let_def split: option.split)

lemmas makeSpeechOptions_simps = makeSpeechOptions_contract_form rate_ok_def pitch_ok_def

text \<open>Rewrite rules that evaluate the validator on concrete inputs.\<close>

lemmas options_eval = makeSpeechOptions_def voice_switch_def go_ToLower_def ascii_lower_def
  go_Ext_def go_eval model_defs

section \<open>Properties of the validator\<close>

text \<open>
  C1.  For finite rate and pitch, \<open>makeSpeechOptions\<close> returns options exactly when the
  specification's contract admits the inputs: non-empty text, a voice token of the table
  (compared in lower case), a rate in \<open>[0.25, 4]\<close>, a pitch in \<open>[-20, 20]\<close> and an
  output extension of the table; the options then carry the table's voice, the extension's
  encoding, the language code \<open>ru-RU\<close> and the given rate and pitch.
\<close>

theorem makeSpeechOptions_refines_contract:
  "makeSpeechOptions text voice out (Fin r) (Fin p) = Inr opt \<longleftrightarrow>
     text \<noteq> [] \<and> map_of voice_table (go_ToLower voice) = Some (VoiceName opt) \<and>
     rate_ok r \<and> pitch_ok p \<and>
     map_of ext_table (go_ToLower (go_Ext out)) = Some (AudioEncoding opt) \<and>
     LanguageCode opt = ''ru-RU'' \<and> AudioSpeechRate opt = Fin r \<and> AudioPitch opt = Fin p"
  by (cases opt) (auto simp: makeSpeechOptions_simps not_less split: option.splits)

text \<open>
  C2.  The range guards \<open>0.25 > rate || rate > 4.0\<close> and
  \<open>-20.0 > pitch || pitch > 20.0\<close> are false for NaN, so a NaN rate or pitch passes
  validation: the result is the one for an in-range value, with NaN in its place.
\<close>

theorem makeSpeechOptions_NaN_accepted:
  "makeSpeechOptions text voice out NaN pitch =
     map_sum id (\<lambda>opt. opt\<lparr>AudioSpeechRate := NaN\<rparr>) (makeSpeechOptions text voice out (Fin 1) pitch) \<and>
   makeSpeechOptions text voice out rate NaN =
     map_sum id (\<lambda>opt. opt\<lparr>AudioPitch := NaN\<rparr>) (makeSpeechOptions text voice out rate (Fin 0))"
  by (simp add: makeSpeechOptions_simps split: option.split)

text \<open>
  C6.  Every options value the validator returns is well formed: language \<open>ru-RU\<close>, one
  of the ten known voices, encoding LINEAR16 or MP3 (never OGG_OPUS), and a rate and
  pitch that the range guards let through.
\<close>

theorem makeSpeechOptions_wf:
  "makeSpeechOptions text voice out rate pitch = Inr opt \<Longrightarrow> options_wf opt"
  by (auto simp: makeSpeechOptions_simps options_wf_def ext_table_def voice_table_known
           split: if_splits option.splits)

lemma makeSpeechOptions_wf_witness:
  "options_wf \<lparr>LanguageCode = ''ru-RU'', VoiceName = ''ru-RU-Standard-A'', AudioEncoding = MP3,
                AudioSpeechRate = Fin 1, AudioPitch = Fin 0\<rparr>"
proof -
  have "makeSpeechOptions ''Privet'' ''stand-a'' ''out.mp3'' (Fin 1) (Fin 0) =
        Inr \<lparr>LanguageCode = ''ru-RU'', VoiceName = ''ru-RU-Standard-A'', AudioEncoding = MP3,
             AudioSpeechRate = Fin 1, AudioPitch = Fin 0\<rparr>"
    by (simp add: options_eval)
  then show ?thesis by (rule makeSpeechOptions_wf)
qed

text \<open>C9.  Empty text is rejected first, whatever the other arguments are.\<close>

theorem makeSpeechOptions_empty_text:
  "makeSpeechOptions [] voice out rate pitch = Inl ErrTextRequired"
  by (simp add: makeSpeechOptions_def)

text \<open>
  C10.  The validator reports an unknown voice exactly when the text is non-empty and the
  lower-cased token is not in the table; the error carries the lower-cased token.
\<close>

theorem makeSpeechOptions_invalid_voice_iff:
  "makeSpeechOptions text voice out rate pitch = Inl (ErrInvalidVoice v) \<longleftrightarrow>
     text \<noteq> [] \<and> map_of voice_table (go_ToLower voice) = None \<and> v = go_ToLower voice"
  by (auto simp: makeSpeechOptions_simps split: option.splits)

text \<open>
  C11.  A range error is reported exactly when the earlier checks pass and the value lies
  outside its closed range (an infinity included; NaN never): the rate first, then the
  pitch, each error carrying the offending value.
\<close>

theorem makeSpeechOptions_range_error_iff:
  "(makeSpeechOptions text voice out rate pitch = Inl (ErrSpeechRate x) \<longleftrightarrow>
      text \<noteq> [] \<and> map_of voice_table (go_ToLower voice) \<noteq> None \<and>
      f64_out_of_range 0.25 4 rate \<and> x = rate) \<and>
   (makeSpeechOptions text voice out rate pitch = Inl (ErrPitch x) \<longleftrightarrow>
      text \<noteq> [] \<and> map_of voice_table (go_ToLower voice) \<noteq> None \<and>
      \<not> f64_out_of_range 0.25 4 rate \<and> f64_out_of_range (-20) 20 pitch \<and> x = pitch)"
  by (auto simp: makeSpeechOptions_simps split: option.splits)

text \<open>
  C12.  An unsupported format is reported exactly when all other checks pass and the
  lower-cased extension of the output path is neither \<open>.wav\<close> nor \<open>.mp3\<close>; the error
  names the whole path.
\<close>

theorem makeSpeechOptions_format_error_iff:
  "makeSpeechOptions text voice out rate pitch = Inl (ErrUnsupportedFormat x) \<longleftrightarrow>
     text \<noteq> [] \<and> map_of voice_table (go_ToLower voice) \<noteq> None \<and>
     \<not> f64_out_of_range 0.25 4 rate \<and> \<not> f64_out_of_range (-20) 20 pitch \<and>
     go_ToLower (go_Ext out) \<notin> {''.wav'', ''.mp3''} \<and> x = out"
  by (auto simp: makeSpeechOptions_simps ext_table_def split: option.splits if_splits)

text \<open>
  C13.  The voice token is matched case-insensitively: upper-casing any of its letters
  does not change the result, errors included.
\<close>

theorem makeSpeechOptions_voice_case_insensitive:
  "makeSpeechOptions text (map ascii_upper voice) out rate pitch =
   makeSpeechOptions text voice out rate pitch"
  by (simp only: makeSpeechOptions_contract_form go_ToLower_upper)

text \<open>
  C24.  The encoding is chosen by the extension after the last dot of the final path
  element, in any case: for an output path \<open>p.e\<close> with \<open>e\<close> free of dots and slashes,
  a successful result has \<open>e\<close> equal to \<open>wav\<close> or \<open>mp3\<close> up to case, and encoding
  LINEAR16 for \<open>wav\<close>, MP3 for \<open>mp3\<close>.
\<close>

theorem makeSpeechOptions_extension:
  assumes "CHR ''.'' \<notin> set e" and "CHR ''/'' \<notin> set e"
    and "makeSpeechOptions text voice (p @ CHR ''.'' # e) rate pitch = Inr opt"
  shows "go_ToLower e \<in> {''wav'', ''mp3''} \<and>
         AudioEncoding opt = (if go_ToLower e = ''wav'' then LINEAR16 else MP3)"
proof -
  have ext: "go_ToLower (go_Ext (p @ CHR ''.'' # e)) = CHR ''.'' # go_ToLower e"
    using assms(1,2) by (simp add: go_Ext_append go_ToLower_def ascii_lower_def)
  from assms(3) obtain enc where
    "map_of ext_table (CHR ''.'' # go_ToLower e) = Some enc" "AudioEncoding opt = enc"
    by (auto simp: makeSpeechOptions_contract_form ext split: if_splits option.splits)
  then show ?thesis by (auto simp: ext_table_def split: if_splits)
qed

lemma makeSpeechOptions_extension_witness:
  "go_ToLower ''WAV'' \<in> {''wav'', ''mp3''} \<and>
   AudioEncoding \<lparr>LanguageCode = ''ru-RU'', VoiceName = ''ru-RU-Standard-A'', AudioEncoding = LINEAR16,
                  AudioSpeechRate = Fin 1, AudioPitch = Fin 0\<rparr> =
     (if go_ToLower ''WAV'' = ''wav'' then LINEAR16 else MP3)"
proof (rule makeSpeechOptions_extension)
  show "makeSpeechOptions ''Privet'' ''stand-a'' (''dir/out'' @ CHR ''.'' # ''WAV'') (Fin 1) (Fin 0) =
        Inr \<lparr>LanguageCode = ''ru-RU'', VoiceName = ''ru-RU-Standard-A'', AudioEncoding = LINEAR16,
             AudioSpeechRate = Fin 1, AudioPitch = Fin 0\<rparr>"
    by (simp add: options_eval)
qed simp_all

text \<open>
  C23.  With nil options \<open>NewRequest\<close> asks for \<open>ru-RU\<close>, the voice Standard-A and MP3,
  the same as the command line's defaults, but with Go's zero value 0.0 for rate and
  pitch; because that rate lies outside \<open>[0.25, 4.0]\<close>, no options value the validator
  can return yields the same request.
\<close>

theorem NewRequest_nil_defaults:
  "NewRequest text None =
     NewRequest text (Some \<lparr>LanguageCode = ''ru-RU'', VoiceName = ''ru-RU-Standard-A'',
                           AudioEncoding = MP3, AudioSpeechRate = Fin 0, AudioPitch = Fin 0\<rparr>) \<and>
   (\<forall>opt. options_wf opt \<longrightarrow> NewRequest text None \<noteq> NewRequest text (Some opt))"
proof -
  have none: "options_of_request (NewRequest text None) = default_SpeechOptions"
    by (simp add: NewRequest_def options_of_request_def)
  have "NewRequest text None \<noteq> NewRequest text (Some opt)" if wf: "options_wf opt" for opt
  proof
    assume "NewRequest text None = NewRequest text (Some opt)"
    then have "options_of_request (NewRequest text None) = opt" by simp
    with none have "AudioSpeechRate opt = Fin 0" by (auto simp: default_SpeechOptions_def)
    with wf show False by (simp add: options_wf_def)
  qed
  then show ?thesis
    by (simp add: NewRequest_def default_SpeechOptions_def model_defs)
qed

lemma NewRequest_nil_defaults_witness:
  "NewRequest ''Privet'' None \<noteq>
   NewRequest ''Privet'' (Some \<lparr>LanguageCode = ''ru-RU'', VoiceName = ''ru-RU-Standard-A'',
                               AudioEncoding = MP3, AudioSpeechRate = Fin 1, AudioPitch = Fin 0\<rparr>)"
proof -
  have "options_wf \<lparr>LanguageCode = ''ru-RU'', VoiceName = ''ru-RU-Standard-A'',
                    AudioEncoding = MP3, AudioSpeechRate = Fin 1, AudioPitch = Fin 0\<rparr>"
    by (simp add: options_wf_def known_voices_def model_defs)
  with NewRequest_nil_defaults [of "''Privet''"] show ?thesis by blast
qed

end
