(* ===== verification/Translate.thy ===== *)
theory Translate
  imports Go_Lib
begin

text \<open>
  Model of \<open>TranslateText\<close> in \<open>src/cmd/cmd.go\<close>: it builds the request payload
  (the text, \<open>en\<close> to \<open>ru\<close>, format \<open>text\<close>, three alternatives, an empty API key),
  posts it to the LibreTranslate endpoint, rejects a status other than 200, decodes the
  first JSON value of the body into \<open>responsePayload\<close> and returns its
  \<open>TranslatedText\<close>.  The HTTP transport is an oracle argument: a function from the
  URL, the content type and the payload to a transport error or a response.  The response
  body is represented by what \<open>json.Decoder.Decode\<close> reads from it: end of input, a
  syntax error, or a JSON value; the decoding of that value into the struct (key matching,
  null, type errors) is modelled from the \<open>encoding/json\<close> sources.
\<close>

section \<open>Payloads and responses\<close>

record requestPayload =
  Q :: string
  Source :: string
  Target :: string
  Format :: string
  Alternatives :: int
  APIKey :: string

record responsePayload =
  TranslatedText :: string

definition translateAPI :: string where [model_defs]:
  "translateAPI = ''https://libretranslate.com/translate''"

definition translate_payload :: "string \<Rightarrow> requestPayload" where
  "translate_payload text =
     \<lparr>Q = text, Source = ''en'', Target = ''ru'', Format = ''text'', Alternatives = 3, APIKey = ''''\<rparr>"

datatype json =
    JNull
  | JBool bool
  | JNumber string
  | JString string
  | JArray "json list"
  | JObject "(string \<times> json) list"

text \<open>What the decoder reads from the response body.\<close>

datatype body_read = BodyEOF | BodySyntaxError | BodyValue json

record http_response =
  StatusCode :: int
  Body :: body_read

type_synonym http_oracle = "string \<Rightarrow> string \<Rightarrow> requestPayload \<Rightarrow> go_error + http_response"

section \<open>Decoding the response (encoding/json)\<close>

text \<open>The JSON kind named in an \<open>UnmarshalTypeError\<close>.\<close>

fun json_kind :: "json \<Rightarrow> string" where
  "json_kind JNull = ''null''"
| "json_kind (JBool b) = ''bool''"
| "json_kind (JNumber n) = ''number''"
| "json_kind (JString s) = ''string''"
| "json_kind (JArray vs) = ''array''"
| "json_kind (JObject kvs) = ''object''"

datatype decode_error = DecodeEOF | DecodeSyntax | DecodeType string

text \<open>
  A JSON key selects a struct field when it equals the field's name (here the tag
  \<open>translatedText\<close>) or when their folded forms agree (\<open>foldName\<close> in
  \<open>encoding/json/fold.go\<close>): ASCII letters are upper-cased and every other rune is
  replaced by the smallest rune of its case-folding orbit.  The only non-ASCII runes whose
  orbit contains an ASCII letter are U+017F (long s, bytes C5 BF, folds to \<open>S\<close>) and
  U+212A (Kelvin sign, bytes E2 84 AA, folds to \<open>K\<close>); every other non-ASCII rune folds
  to a non-ASCII rune.  \<open>fold_match key name\<close> decides, for an ASCII \<open>name\<close> already
  folded, whether \<open>foldName key = name\<close>.
\<close>

fun fold_match :: "string \<Rightarrow> string \<Rightarrow> bool" where
  "fold_match [] [] = True"
| "fold_match (c # ks) (t # ts) =
     (if (of_char c :: nat) < 128 then ascii_upper c = t \<and> fold_match ks ts
      else if c = char_of (0xC5::nat) \<and> take 1 ks = [char_of (0xBF::nat)] \<and> t = CHR ''S''
      then fold_match (drop 1 ks) ts
      else if c = char_of (0xE2::nat) \<and> take 2 ks = [char_of (0x84::nat), char_of (0xAA::nat)] \<and>
              t = CHR ''K''
      then fold_match (drop 2 ks) ts
      else False)"
| "fold_match ks ts = False"

definition translatedText_key :: "string \<Rightarrow> bool" where
  "translatedText_key k \<longleftrightarrow> k = ''translatedText'' \<or> fold_match k ''TRANSLATEDTEXT''"

text \<open>
  Decoding an object into the struct visits the members in order.  A member whose key
  selects the field sets it from a string, leaves it unchanged for \<open>null\<close>, and for any
  other value records an \<open>UnmarshalTypeError\<close> (the first one is returned at the end)
  and goes on; members with other keys are skipped.
\<close>

fun decode_fields ::
  "(string \<times> json) list \<Rightarrow> responsePayload \<Rightarrow> decode_error option \<Rightarrow>
   responsePayload \<times> decode_error option" where
  "decode_fields [] r err = (r, err)"
| "decode_fields ((k, v) # kvs) r err =
     (if translatedText_key k then
        (case v of
           JString s \<Rightarrow> decode_fields kvs (r\<lparr>TranslatedText := s\<rparr>) err
         | JNull \<Rightarrow> decode_fields kvs r err
         | _ \<Rightarrow> decode_fields kvs r (case err of None \<Rightarrow> Some (DecodeType (json_kind v)) | Some e \<Rightarrow> Some e))
      else decode_fields kvs r err)"

text \<open>
  \<open>json.NewDecoder(resp.Body).Decode(&result)\<close> with \<open>result\<close> the zero value: an
  empty body is \<open>io.EOF\<close>, \<open>null\<close> leaves the struct as it is, an object is decoded
  member by member, any other value is a type error.
\<close>

definition decode_response :: "body_read \<Rightarrow> decode_error + responsePayload" where
  "decode_response b =
     (case b of
        BodyEOF \<Rightarrow> Inl DecodeEOF
      | BodySyntaxError \<Rightarrow> Inl DecodeSyntax
      | BodyValue JNull \<Rightarrow> Inr \<lparr>TranslatedText = ''''\<rparr>
      | BodyValue (JObject kvs) \<Rightarrow>
          (case decode_fields kvs \<lparr>TranslatedText = ''''\<rparr> None of
             (r, None) \<Rightarrow> Inr r
           | (r, Some e) \<Rightarrow> Inl e)
      | BodyValue v \<Rightarrow> Inl (DecodeType (json_kind v)))"

section \<open>TranslateText\<close>

datatype translate_error =
    TrTransport go_error
  | TrStatus int
  | TrDecode decode_error

definition TranslateText :: "http_oracle \<Rightarrow> string \<Rightarrow> translate_error + string" where
  "TranslateText post text =
     (let payload = translate_payload text in
      case post translateAPI ''application/json'' payload of
        Inl err \<Rightarrow> Inl (TrTransport err)
      | Inr resp \<Rightarrow>
          if StatusCode resp \<noteq> 200 then Inl (TrStatus (StatusCode resp))
          else
            (case decode_response (Body resp) of
               Inl err \<Rightarrow> Inl (TrDecode err)
             | Inr result \<Rightarrow> Inr (TranslatedText result)))"

section \<open>Properties of the translation client\<close>

lemma decode_fields_skip:
  "\<forall>(k, v) \<in> set kvs. \<not> translatedText_key k \<Longrightarrow> decode_fields kvs r err = (r, err)"
  by (induction kvs arbitrary: r err) auto

text \<open>On ASCII keys the folded comparison is equality after upper-casing.\<close>

lemma fold_match_ascii:
  "list_all (\<lambda>c. (of_char c :: nat) < 128) k \<Longrightarrow> fold_match k t \<longleftrightarrow> map ascii_upper k = t"
proof (induction k arbitrary: t)
  case Nil
  then show ?case by (cases t) simp_all
next
  case (Cons c k)
  then show ?case by (cases t) auto
qed

lemma TranslateText_Inr_resp:
  "post translateAPI ''application/json'' (translate_payload text) = Inr resp \<Longrightarrow>
   TranslateText post text =
     (if StatusCode resp \<noteq> 200 then Inl (TrStatus (StatusCode resp))
      else case decode_response (Body resp) of
             Inl err \<Rightarrow> Inl (TrDecode err)
           | Inr result \<Rightarrow> Inr (TranslatedText result))"
  by (simp add: TranslateText_def)

text \<open>
  C15.  \<open>TranslateText\<close> asks the transport one question only: its result is determined
  by the answer to a POST to the LibreTranslate URL with content type
  \<open>application/json\<close> and the payload that translates the text from \<open>en\<close> to
  \<open>ru\<close> as \<open>text\<close>, with three alternatives and an empty API key.
\<close>

theorem TranslateText_fixed_request:
  "post translateAPI ''application/json'' (translate_payload text) =
     post' translateAPI ''application/json'' (translate_payload text) \<Longrightarrow>
   TranslateText post text = TranslateText post' text \<and>
   translate_payload text =
     \<lparr>Q = text, Source = ''en'', Target = ''ru'', Format = ''text'', Alternatives = 3, APIKey = ''''\<rparr>"
  by (simp add: TranslateText_def translate_payload_def)

lemma TranslateText_fixed_request_witness:
  "TranslateText (\<lambda>_ _ _. Inl (GoError ''down'')) ''Hello'' =
     TranslateText (\<lambda>u c p. if u = translateAPI then Inl (GoError ''down'')
                            else Inr \<lparr>StatusCode = 200, Body = BodyEOF\<rparr>) ''Hello'' \<and>
   translate_payload ''Hello'' =
     \<lparr>Q = ''Hello'', Source = ''en'', Target = ''ru'', Format = ''text'', Alternatives = 3, APIKey = ''''\<rparr>"
  by (rule TranslateText_fixed_request) simp

text \<open>
  C16.  A response whose status is not 200 is an error carrying the status, whatever the
  body holds; a transport failure is passed on as it is.
\<close>

theorem TranslateText_status_error:
  "(post translateAPI ''application/json'' (translate_payload text) = Inr resp \<longrightarrow>
      StatusCode resp \<noteq> 200 \<longrightarrow> TranslateText post text = Inl (TrStatus (StatusCode resp))) \<and>
   (post translateAPI ''application/json'' (translate_payload text) = Inl err \<longrightarrow>
      TranslateText post text = Inl (TrTransport err))"
  by (simp add: TranslateText_def)

lemma TranslateText_status_error_witness:
  "TranslateText (\<lambda>_ _ _. Inr \<lparr>StatusCode = 500, Body = BodyEOF\<rparr>) ''Hello'' = Inl (TrStatus 500) \<and>
   TranslateText (\<lambda>_ _ _. Inl (GoError ''refused'')) ''Hello'' = Inl (TrTransport (GoError ''refused''))"
  using TranslateText_status_error [of "\<lambda>_ _ _. Inr \<lparr>StatusCode = 500, Body = BodyEOF\<rparr>" "''Hello''"
          "\<lparr>StatusCode = 500, Body = BodyEOF\<rparr>" "GoError ''refused''"]
        TranslateText_status_error [of "\<lambda>_ _ _. Inl (GoError ''refused'')" "''Hello''"
          "\<lparr>StatusCode = 500, Body = BodyEOF\<rparr>" "GoError ''refused''"]
  by simp

text \<open>
  C17.  A 200 response whose body is \<open>null\<close>, or an object none of whose keys selects
  the \<open>translatedText\<close> field (for instance an error object), is not a decode error:
  the translation is the empty string.
\<close>

theorem TranslateText_missing_field:
  "post translateAPI ''application/json'' (translate_payload text) = Inr resp \<Longrightarrow>
   StatusCode resp = 200 \<Longrightarrow>
   Body resp = BodyValue JNull \<or>
     (\<exists>kvs. Body resp = BodyValue (JObject kvs) \<and> (\<forall>(k, v) \<in> set kvs. \<not> translatedText_key k)) \<Longrightarrow>
   TranslateText post text = Inr ''''"
  by (auto simp: TranslateText_Inr_resp decode_response_def decode_fields_skip)

lemma TranslateText_missing_field_witness:
  "TranslateText (\<lambda>_ _ _. Inr \<lparr>StatusCode = 200,
       Body = BodyValue (JObject [(''error'', JString ''Too many requests'')])\<rparr>) ''Hello'' = Inr ''''"
  by (rule TranslateText_missing_field) (simp add: translatedText_key_def ascii_upper_def go_eval)+

text \<open>
  C18.  For a key made of ASCII bytes, the decoder selects the field exactly when the key
  spells \<open>translatedText\<close> in any mix of upper and lower case: a 200 response with the
  single member \<open>key: s\<close> yields \<open>s\<close> for such a key (\<open>TranslatedText\<close>,
  \<open>TRANSLATEDTEXT\<close>, \<dots>) and the empty string for every other key.
\<close>

theorem TranslateText_key_case_insensitive:
  assumes "post translateAPI ''application/json'' (translate_payload text) =
             Inr \<lparr>StatusCode = 200, Body = BodyValue (JObject [(k, JString s)])\<rparr>"
    and "list_all (\<lambda>c. (of_char c :: nat) < 128) k"
  shows "TranslateText post text = (if map ascii_upper k = ''TRANSLATEDTEXT'' then Inr s else Inr '''')"
proof -
  have "translatedText_key k \<longleftrightarrow> map ascii_upper k = ''TRANSLATEDTEXT''"
    using assms(2) by (auto simp: translatedText_key_def fold_match_ascii ascii_upper_def go_eval)
  with assms(1) show ?thesis
    by (simp add: TranslateText_Inr_resp decode_response_def)
qed

lemma TranslateText_key_case_insensitive_witness:
  "TranslateText (\<lambda>_ _ _. Inr \<lparr>StatusCode = 200,
       Body = BodyValue (JObject [(''TranslatedText'', JString ''Privet'')])\<rparr>) ''Hello'' = Inr ''Privet'' \<and>
   TranslateText (\<lambda>_ _ _. Inr \<lparr>StatusCode = 200,
       Body = BodyValue (JObject [(''translated_text'', JString ''Privet'')])\<rparr>) ''Hello'' = Inr ''''"
proof
  show "TranslateText (\<lambda>_ _ _. Inr \<lparr>StatusCode = 200,
       Body = BodyValue (JObject [(''TranslatedText'', JString ''Privet'')])\<rparr>) ''Hello'' = Inr ''Privet''"
    using TranslateText_key_case_insensitive [of "\<lambda>_ _ _. Inr \<lparr>StatusCode = 200,
       Body = BodyValue (JObject [(''TranslatedText'', JString ''Privet'')])\<rparr>" "''Hello''"
       "''TranslatedText''" "''Privet''"]
    by (simp add: ascii_upper_def go_eval)
  show "TranslateText (\<lambda>_ _ _. Inr \<lparr>StatusCode = 200,
       Body = BodyValue (JObject [(''translated_text'', JString ''Privet'')])\<rparr>) ''Hello'' = Inr ''''"
    using TranslateText_key_case_insensitive [of "\<lambda>_ _ _. Inr \<lparr>StatusCode = 200,
       Body = BodyValue (JObject [(''translated_text'', JString ''Privet'')])\<rparr>" "''Hello''"
       "''translated_text''" "''Privet''"]
    by (simp add: ascii_upper_def go_eval)
qed

end
