(* ===== verification/Cli.thy ===== *)
theory Cli
  imports Speech_Options Translate
begin

text \<open>
  Model of \<open>CLI.Run\<close> in \<open>src/cmd/cmd.go\<close> and of \<open>main\<close> in \<open>src/main.go\<close>:
  parse the flags, translate the text, validate the options, get the speech client,
  synthesize, write the file; each failure prints a message and returns its exit code.
  The effects are explicit: a \<open>world\<close> record holds the package's speaker singleton,
  the file system (a map from paths to contents) and a log of the observable events in
  order (the translation request sent, the synthesis request sent, the file write, the
  messages printed).  The services and the file system answer through an \<open>env\<close>
  record of oracles.  Flag parsing follows \<open>flag.FlagSet.Parse\<close> of Go's standard
  library for this flag set; parsing a float is the argument \<open>pf\<close>
  (\<open>strconv.ParseFloat\<close>, \<open>None\<close> for a syntax error), so that every theorem holds
  for any float parser, and a theorem that needs a particular answer says so.
\<close>

section \<open>Flags (package flag)\<close>

record flag_values =
  fl_text :: string
  fl_voice :: string
  fl_rate :: f64
  fl_pitch :: f64
  fl_out :: string

definition flag_defaults :: flag_values where
  "flag_defaults =
     \<lparr>fl_text = '''', fl_voice = ''stand-a'', fl_rate = Fin 1, fl_pitch = Fin 0, fl_out = ''''\<rparr>"

definition flag_defined :: "string \<Rightarrow> bool" where
  "flag_defined name \<longleftrightarrow> name \<in> {''text'', ''voice'', ''rate'', ''pitch'', ''o''}"

type_synonym float_parser = "string \<Rightarrow> f64 option"

text \<open>\<open>Value.Set\<close> of the flag: strings always succeed, floats go through the parser.\<close>

definition set_flag :: "float_parser \<Rightarrow> string \<Rightarrow> string \<Rightarrow> flag_values \<Rightarrow> flag_values option" where
  "set_flag pf name value fv =
     (if name = ''text'' then Some (fv\<lparr>fl_text := value\<rparr>)
      else if name = ''voice'' then Some (fv\<lparr>fl_voice := value\<rparr>)
      else if name = ''rate'' then map_option (\<lambda>r. fv\<lparr>fl_rate := r\<rparr>) (pf value)
      else if name = ''pitch'' then map_option (\<lambda>p. fv\<lparr>fl_pitch := p\<rparr>) (pf value)
      else Some (fv\<lparr>fl_out := value\<rparr>))"

datatype flag_error =
    ErrHelp
  | ErrBadSyntax string
  | ErrUndefined string
  | ErrNeedsArgument string
  | ErrInvalidValue string string

text \<open>
  \<open>-name=value\<close>: the name ends at the first \<open>=\<close> (never the first byte, which the
  syntax check has excluded).
\<close>

definition split_flag :: "string \<Rightarrow> string \<times> bool \<times> string" where
  "split_flag name =
     (let n = takeWhile (\<lambda>c. c \<noteq> CHR ''='') name
      in (n, length n < length name, drop (Suc (length n)) name))"

text \<open>
  The loop of \<open>Parse\<close> over \<open>parseOne\<close>: stop at the first argument that is not a
  flag (shorter than two bytes or not starting with \<open>-\<close>) or after \<open>--\<close>; reject bad
  syntax, undefined names (\<open>-h\<close> and \<open>-help\<close> are \<open>ErrHelp\<close>), a missing value and
  a value \<open>Set\<close> refuses; the value is after \<open>=\<close> or the next argument.  The result
  is the flag values and the remaining arguments.
\<close>

fun parse_flags ::
  "float_parser \<Rightarrow> string list \<Rightarrow> flag_values \<Rightarrow> flag_error + (flag_values \<times> string list)" where
  "parse_flags pf [] fv = Inr (fv, [])"
| "parse_flags pf (s # rest) fv =
     (if length s < 2 \<or> s ! 0 \<noteq> CHR ''-'' then Inr (fv, s # rest)
      else if s ! 1 = CHR ''-'' \<and> length s = 2 then Inr (fv, rest)
      else
        (let name = drop (if s ! 1 = CHR ''-'' then 2 else 1) s in
         if name = [] \<or> name ! 0 = CHR ''-'' \<or> name ! 0 = CHR ''='' then Inl (ErrBadSyntax s)
         else
           (case split_flag name of
              (n, has_value, value) \<Rightarrow>
                if \<not> flag_defined n then
                  (if n = ''help'' \<or> n = ''h'' then Inl ErrHelp else Inl (ErrUndefined n))
                else if has_value then
                  (case set_flag pf n value fv of
                     None \<Rightarrow> Inl (ErrInvalidValue value n)
                   | Some fv' \<Rightarrow> parse_flags pf rest fv')
                else
                  (case rest of
                     [] \<Rightarrow> Inl (ErrNeedsArgument n)
                   | v # rest' \<Rightarrow>
                       (case set_flag pf n v fv of
                          None \<Rightarrow> Inl (ErrInvalidValue v n)
                        | Some fv' \<Rightarrow> parse_flags pf rest' fv')))))"

section \<open>The world and the environment\<close>

definition ExitCodeOK :: exit_code where [model_defs]: "ExitCodeOK = 0"
definition ExitCodeParseFlagsError :: exit_code where [model_defs]: "ExitCodeParseFlagsError = 1"
definition ExitCodeValidateError :: exit_code where [model_defs]: "ExitCodeValidateError = 2"
definition ExitCodeInternalError :: exit_code where [model_defs]: "ExitCodeInternalError = 3"
definition ExitCodeOutputError :: exit_code where [model_defs]: "ExitCodeOutputError = 4"

text \<open>The error value printed after each message prefix.\<close>

datatype cli_error =
    CliFlags flag_error
  | CliTranslate translate_error
  | CliValidate opt_error
  | CliClient go_error
  | CliSynth go_error
  | CliWrite go_error

datatype event =
    EvPost requestPayload
  | EvSynthesize SynthesizeSpeechRequest
  | EvWriteFile string bytes
  | EvStderr string cli_error
  | EvStdout string

record world =
  w_speaker :: speaker_state
  w_files :: "string \<rightharpoonup> bytes"
  w_log :: "event list"

text \<open>
  \<open>os.WriteFile(out, b, 0644)\<close>: \<open>None\<close> when the file now holds \<open>b\<close>; on failure
  the error and what is left at the path (\<open>None\<close>: no file).
\<close>

record env =
  env_post :: http_oracle
  env_dial :: dial_oracle
  env_synth :: synth_oracle
  env_write :: "string \<Rightarrow> bytes \<Rightarrow> (go_error \<times> bytes option) option"

definition log_event :: "event list \<Rightarrow> world \<Rightarrow> world" where
  "log_event es w = w\<lparr>w_log := w_log w @ es\<rparr>"

section \<open>CLI.Run and main\<close>

definition cli_Run :: "float_parser \<Rightarrow> env \<Rightarrow> string list \<Rightarrow> world \<Rightarrow> exit_code \<times> world" where
  "cli_Run pf env args w =
     (case parse_flags pf args flag_defaults of
        Inl err \<Rightarrow>
          (ExitCodeParseFlagsError, log_event [EvStderr ''Error parsing flags: '' (CliFlags err)] w)
      | Inr (fv, _) \<Rightarrow>
          (let w1 = log_event [EvPost (translate_payload (fl_text fv))] w in
           case TranslateText (env_post env) (fl_text fv) of
             Inl err \<Rightarrow>
               (ExitCodeInternalError,
                log_event [EvStderr ''Error translating text: '' (CliTranslate err)] w1)
           | Inr russianText \<Rightarrow>
               (case makeSpeechOptions russianText (fl_voice fv) (fl_out fv) (fl_rate fv) (fl_pitch fv) of
                  Inl err \<Rightarrow>
                    (ExitCodeValidateError,
                     log_event [EvStderr ''Error validating flags: '' (CliValidate err)] w1)
                | Inr opt \<Rightarrow>
                    (case NewSpeechClient (env_dial env) (w_speaker w1) of
                       (Inl err, sp') \<Rightarrow>
                         (ExitCodeInternalError,
                          log_event [EvStderr ''Error creating speech client: '' (CliClient err)]
                            (w1\<lparr>w_speaker := sp'\<rparr>))
                     | (Inr client, sp') \<Rightarrow>
                         (let req = NewRequest russianText (Some opt);
                              w2 = log_event [EvSynthesize req] (w1\<lparr>w_speaker := sp'\<rparr>) in
                          case Speaker_Run (env_synth env) client req of
                            Inl err \<Rightarrow>
                              (ExitCodeInternalError,
                               log_event [EvStderr ''Error synthesizing speech: '' (CliSynth err)] w2)
                          | Inr b \<Rightarrow>
                              (case env_write env (fl_out fv) b of
                                 Some (err, residue) \<Rightarrow>
                                   (ExitCodeOutputError,
                                    log_event [EvWriteFile (fl_out fv) b,
                                               EvStderr ''Error writing output file: '' (CliWrite err)]
                                      (w2\<lparr>w_files := (w_files w2)(fl_out fv := residue)\<rparr>))
                               | None \<Rightarrow>
                                   (ExitCodeOK,
                                    log_event [EvWriteFile (fl_out fv) b,
                                               EvStdout ''Speech synthesis completed successfully.'']
                                      (w2\<lparr>w_files := (w_files w2)(fl_out fv \<mapsto> b)\<rparr>))))))))"

text \<open>\<open>os.Exit(cli.Run(os.Args[1:]))\<close>: the program name is dropped.\<close>

definition main_go :: "float_parser \<Rightarrow> env \<Rightarrow> string list \<Rightarrow> world \<Rightarrow> exit_code \<times> world" where
  "main_go pf env argv w = cli_Run pf env (drop 1 argv) w"

section \<open>Scenarios of the specification\<close>

text \<open>
  The services of the end-to-end scenarios of the specification (section 8): the
  translator answers 200 with \<open>{"translatedText": "Privet"}\<close> (in Cyrillic, as UTF-8
  bytes), the connection succeeds, synthesis returns the bytes 1, 2, 3 and the write
  succeeds; \<open>scenario_env_500\<close> differs in the translator answering 500.
\<close>

definition privet_utf8 :: string where
  "privet_utf8 = map char_of [0xD0, 0x9F, 0xD1, 0x80, 0xD0, 0xB8, 0xD0, 0xB2, 0xD0, 0xB5, 0xD1, 0x82 :: nat]"

definition scenario_audio :: bytes where
  "scenario_audio = map char_of [1, 2, 3 :: nat]"

definition scenario_env :: env where
  "scenario_env =
     \<lparr>env_post = (\<lambda>_ _ _. Inr \<lparr>StatusCode = 200,
                    Body = BodyValue (JObject [(''translatedText'', JString privet_utf8)])\<rparr>),
      env_dial = (\<lambda>_. Inr 1),
      env_synth = (\<lambda>_ _. Inr \<lparr>AudioContent = scenario_audio\<rparr>),
      env_write = (\<lambda>_ _. None)\<rparr>"

definition scenario_env_500 :: env where
  "scenario_env_500 = scenario_env\<lparr>env_post := (\<lambda>_ _ _. Inr \<lparr>StatusCode = 500, Body = BodyEOF\<rparr>)\<rparr>"

definition world0 :: world where
  "world0 = \<lparr>w_speaker = speaker_init, w_files = Map.empty, w_log = []\<rparr>"

section \<open>Properties of the orchestrator\<close>

lemmas flags_eval = flag_defaults_def split_flag_def flag_defined_def set_flag_def

lemmas run_simps = cli_Run_def log_event_def Let_def model_defs

lemma TranslateText_scenario:
  "TranslateText (env_post scenario_env) text = Inr privet_utf8"
  by (simp add: scenario_env_def TranslateText_def decode_response_def translatedText_key_def)

lemma privet_utf8_not_Nil: "privet_utf8 \<noteq> []"
  by (simp add: privet_utf8_def)

lemma world_log_update_eq: "w\<lparr>w_log := a\<rparr> = w\<lparr>w_log := b\<rparr> \<longleftrightarrow> a = b"
  by (cases w) simp

text \<open>
  C4.  When the flags parse, the translation returns a text the validator accepts, the
  speech client is obtained, synthesis returns audio and the write succeeds, \<open>Run\<close>
  exits with 0, the output path holds exactly the audio, and the observable events are,
  in order: the translation request, the synthesis request for the translated text and the
  validated options, the file write, the success message.
\<close>

theorem cli_Run_success:
  assumes "parse_flags pf args flag_defaults = Inr (fv, rest)"
    and "TranslateText (env_post env) (fl_text fv) = Inr t"
    and "makeSpeechOptions t (fl_voice fv) (fl_out fv) (fl_rate fv) (fl_pitch fv) = Inr opt"
    and "NewSpeechClient (env_dial env) (w_speaker w) = (Inr sp, sp')"
    and "env_synth env (sp_client sp) (NewRequest t (Some opt)) = Inr resp"
    and "env_write env (fl_out fv) (AudioContent resp) = None"
  shows "cli_Run pf env args w =
     (0, w\<lparr>w_speaker := sp', w_files := (w_files w)(fl_out fv \<mapsto> AudioContent resp),
           w_log := w_log w @ [EvPost (translate_payload (fl_text fv)),
                               EvSynthesize (NewRequest t (Some opt)),
                               EvWriteFile (fl_out fv) (AudioContent resp),
                               EvStdout ''Speech synthesis completed successfully.'']\<rparr>)"
  using assms by (simp add: run_simps Speaker_Run_def)

lemma cli_Run_success_witness:
  "fst (cli_Run (\<lambda>_. None) scenario_env [''-text'', ''Hello'', ''-voice'', ''stand-a'', ''-o'', ''out.mp3''] world0) = 0 \<and>
   w_files (snd (cli_Run (\<lambda>_. None) scenario_env [''-text'', ''Hello'', ''-voice'', ''stand-a'', ''-o'', ''out.mp3''] world0)) ''out.mp3''
     = Some scenario_audio"
proof -
  let ?fv = "flag_defaults\<lparr>fl_text := ''Hello'', fl_voice := ''stand-a'', fl_out := ''out.mp3''\<rparr>"
  let ?opt = "\<lparr>LanguageCode = ''ru-RU'', VoiceName = ''ru-RU-Standard-A'', AudioEncoding = MP3,
               AudioSpeechRate = Fin 1, AudioPitch = Fin 0\<rparr>"
  have p: "parse_flags (\<lambda>_. None) [''-text'', ''Hello'', ''-voice'', ''stand-a'', ''-o'', ''out.mp3'']
             flag_defaults = Inr (?fv, [])"
    by (simp add: flags_eval)
  have t: "TranslateText (env_post scenario_env) (fl_text ?fv) = Inr privet_utf8"
    by (rule TranslateText_scenario)
  have o: "makeSpeechOptions privet_utf8 (fl_voice ?fv) (fl_out ?fv) (fl_rate ?fv) (fl_pitch ?fv) = Inr ?opt"
    using privet_utf8_not_Nil by (simp add: options_eval flag_defaults_def)
  have d: "NewSpeechClient (env_dial scenario_env) (w_speaker world0) =
             (Inr \<lparr>sp_client = 1\<rparr>, \<lparr>speaker = Some \<lparr>sp_client = 1\<rparr>, attempts = 1, dialed = [1]\<rparr>)"
    by (simp add: NewSpeechClient_def scenario_env_def world0_def speaker_init_def Let_def)
  have s: "env_synth scenario_env (sp_client \<lparr>sp_client = 1\<rparr>) (NewRequest privet_utf8 (Some ?opt)) =
             Inr \<lparr>AudioContent = scenario_audio\<rparr>"
    by (simp add: scenario_env_def)
  have wr: "env_write scenario_env (fl_out ?fv) (AudioContent \<lparr>AudioContent = scenario_audio\<rparr>) = None"
    by (simp add: scenario_env_def)
  show ?thesis using cli_Run_success [OF p t o d s wr] by (simp add: flag_defaults_def)
qed

text \<open>
  C3.  The translation request is sent before the options are validated: when the flags
  parse and the translation succeeds but validation fails (an unknown voice such as
  \<open>xyz\<close>, an output path such as \<open>out.txt\<close>, a rate out of range), \<open>Run\<close> exits with
  2 after the translation request has gone out, without touching the speech client or the
  file system.
\<close>

theorem cli_Run_validation_error_after_translation:
  assumes "parse_flags pf args flag_defaults = Inr (fv, rest)"
    and "TranslateText (env_post env) (fl_text fv) = Inr t"
    and "makeSpeechOptions t (fl_voice fv) (fl_out fv) (fl_rate fv) (fl_pitch fv) = Inl err"
  shows "cli_Run pf env args w =
     (2, w\<lparr>w_log := w_log w @ [EvPost (translate_payload (fl_text fv)),
                               EvStderr ''Error validating flags: '' (CliValidate err)]\<rparr>)"
  using assms by (simp add: run_simps)

lemma cli_Run_validation_error_after_translation_witness:
  "cli_Run (\<lambda>_. None) scenario_env [''-text'', ''Hello'', ''-voice'', ''xyz'', ''-o'', ''out.mp3''] world0 =
     (2, world0\<lparr>w_log := [EvPost (translate_payload ''Hello''),
                           EvStderr ''Error validating flags: '' (CliValidate (ErrInvalidVoice ''xyz''))]\<rparr>)"
proof -
  let ?fv = "flag_defaults\<lparr>fl_text := ''Hello'', fl_voice := ''xyz'', fl_out := ''out.mp3''\<rparr>"
  have p: "parse_flags (\<lambda>_. None) [''-text'', ''Hello'', ''-voice'', ''xyz'', ''-o'', ''out.mp3'']
             flag_defaults = Inr (?fv, [])"
    by (simp add: flags_eval)
  have t: "TranslateText (env_post scenario_env) (fl_text ?fv) = Inr privet_utf8"
    by (rule TranslateText_scenario)
  have o: "makeSpeechOptions privet_utf8 (fl_voice ?fv) (fl_out ?fv) (fl_rate ?fv) (fl_pitch ?fv) =
             Inl (ErrInvalidVoice ''xyz'')"
    using privet_utf8_not_Nil by (simp add: options_eval flag_defaults_def)
  show ?thesis using cli_Run_validation_error_after_translation [OF p t o]
    by (simp add: flag_defaults_def world0_def)
qed

text \<open>
  C5.  When the translation service answers with a status other than 200, \<open>Run\<close> exits
  with 3 after the translation request, prints the status error, and neither contacts the
  speech service nor writes a file.
\<close>

theorem cli_Run_translate_status_error:
  assumes "parse_flags pf args flag_defaults = Inr (fv, rest)"
    and "env_post env translateAPI ''application/json'' (translate_payload (fl_text fv)) = Inr resp"
    and "StatusCode resp \<noteq> 200"
  shows "cli_Run pf env args w =
     (3, w\<lparr>w_log := w_log w @ [EvPost (translate_payload (fl_text fv)),
         EvStderr ''Error translating text: '' (CliTranslate (TrStatus (StatusCode resp)))]\<rparr>)"
proof -
  from assms(2,3) have "TranslateText (env_post env) (fl_text fv) = Inl (TrStatus (StatusCode resp))"
    by (simp add: TranslateText_Inr_resp)
  with assms(1) show ?thesis by (simp add: run_simps)
qed

lemma cli_Run_translate_status_error_witness:
  "cli_Run (\<lambda>_. None) scenario_env_500 [''-text'', ''Hello'', ''-o'', ''out.mp3''] world0 =
     (3, world0\<lparr>w_log := [EvPost (translate_payload ''Hello''),
         EvStderr ''Error translating text: '' (CliTranslate (TrStatus 500))]\<rparr>)"
proof -
  let ?fv = "flag_defaults\<lparr>fl_text := ''Hello'', fl_out := ''out.mp3''\<rparr>"
  have p: "parse_flags (\<lambda>_. None) [''-text'', ''Hello'', ''-o'', ''out.mp3''] flag_defaults = Inr (?fv, [])"
    by (simp add: flags_eval)
  have r: "env_post scenario_env_500 translateAPI ''application/json'' (translate_payload (fl_text ?fv)) =
             Inr \<lparr>StatusCode = 500, Body = BodyEOF\<rparr>"
    by (simp add: scenario_env_500_def)
  show ?thesis using cli_Run_translate_status_error [OF p r] by (simp add: flag_defaults_def world0_def)
qed

text \<open>
  C19.  \<open>Run\<close> always exits with one of the five documented codes, and unless it exits
  with 0 or 4 (the two outcomes that reach \<open>os.WriteFile\<close>) the file system is as it was:
  no output is produced before both remote calls have succeeded.
\<close>

theorem cli_Run_exit_codes:
  "fst (cli_Run pf env args w) \<in> {0, 1, 2, 3, 4} \<and>
   (fst (cli_Run pf env args w) \<notin> {0, 4} \<longrightarrow> w_files (snd (cli_Run pf env args w)) = w_files w)"
  by (auto simp: run_simps split: sum.splits prod.splits option.splits)

lemma cli_Run_exit_codes_witness:
  "fst (cli_Run (\<lambda>_. None) scenario_env_500 [''-text'', ''Hello'', ''-o'', ''out.mp3''] world0) \<in> {0, 1, 2, 3, 4} \<and>
   w_files (snd (cli_Run (\<lambda>_. None) scenario_env_500 [''-text'', ''Hello'', ''-o'', ''out.mp3''] world0)) =
     w_files world0"
proof -
  have e: "fst (cli_Run (\<lambda>_. None) scenario_env_500 [''-text'', ''Hello'', ''-o'', ''out.mp3''] world0) = 3"
    by (simp add: run_simps flags_eval scenario_env_500_def scenario_env_def TranslateText_def)
  from cli_Run_exit_codes [of "\<lambda>_. None" scenario_env_500 "[''-text'', ''Hello'', ''-o'', ''out.mp3'']" world0] e
  show ?thesis by simp
qed

text \<open>
  C20.  A flag that does not parse (\<open>-h\<close>, an undefined flag, a missing value, a rate
  the float parser rejects) ends \<open>Run\<close> with 1 before any request is sent.
\<close>

theorem cli_Run_flag_error:
  "parse_flags pf args flag_defaults = Inl err \<Longrightarrow>
   cli_Run pf env args w =
     (1, w\<lparr>w_log := w_log w @ [EvStderr ''Error parsing flags: '' (CliFlags err)]\<rparr>)"
  by (simp add: run_simps)

lemma cli_Run_flag_error_witness:
  "cli_Run (\<lambda>_. None) scenario_env [''-rate'', ''fast''] world0 =
     (1, world0\<lparr>w_log := [EvStderr ''Error parsing flags: '' (CliFlags (ErrInvalidValue ''fast'' ''rate''))]\<rparr>)"
proof -
  have "parse_flags (\<lambda>_. None) [''-rate'', ''fast''] flag_defaults = Inl (ErrInvalidValue ''fast'' ''rate'')"
    by (simp add: flags_eval)
  from cli_Run_flag_error [OF this] show ?thesis by (simp add: world0_def)
qed

text \<open>
  C21.  With a float parser that reads \<open>NaN\<close> as NaN (as \<open>strconv.ParseFloat\<close> does),
  \<open>-rate NaN\<close> is not rejected: once the translation returns a non-empty text and the
  speech client is obtained, a synthesis request with speaking rate NaN is sent.
\<close>

theorem cli_Run_NaN_rate_sent:
  assumes "pf ''NaN'' = Some NaN"
    and "TranslateText (env_post env) text = Inr r" and "r \<noteq> []"
    and "NewSpeechClient (env_dial env) (w_speaker w) = (Inr sp, sp')"
  shows "EvSynthesize (NewRequest r (Some \<lparr>LanguageCode = ''ru-RU'', VoiceName = VoiceStandardA,
            AudioEncoding = LINEAR16, AudioSpeechRate = NaN, AudioPitch = Fin 0\<rparr>))
         \<in> set (w_log (snd (cli_Run pf env [''-text'', text, ''-rate'', ''NaN'', ''-o'', ''out.wav''] w)))"
proof -
  have p: "parse_flags pf [''-text'', text, ''-rate'', ''NaN'', ''-o'', ''out.wav''] flag_defaults =
             Inr (flag_defaults\<lparr>fl_text := text, fl_rate := NaN, fl_out := ''out.wav''\<rparr>, [])"
    using assms(1) by (simp add: flags_eval)
  have o: "makeSpeechOptions r ''stand-a'' ''out.wav'' NaN (Fin 0) =
             Inr \<lparr>LanguageCode = ''ru-RU'', VoiceName = VoiceStandardA,
                  AudioEncoding = LINEAR16, AudioSpeechRate = NaN, AudioPitch = Fin 0\<rparr>"
    using assms(3) by (simp add: options_eval)
  show ?thesis using p o assms(2,4)
    by (simp add: run_simps flag_defaults_def Speaker_Run_def split: sum.split option.split)
qed

lemma cli_Run_NaN_rate_sent_witness:
  "EvSynthesize (NewRequest privet_utf8 (Some \<lparr>LanguageCode = ''ru-RU'', VoiceName = VoiceStandardA,
      AudioEncoding = LINEAR16, AudioSpeechRate = NaN, AudioPitch = Fin 0\<rparr>))
   \<in> set (w_log (snd (cli_Run (\<lambda>s. if s = ''NaN'' then Some NaN else None) scenario_env
                        [''-text'', ''Hello'', ''-rate'', ''NaN'', ''-o'', ''out.wav''] world0)))"
proof (rule cli_Run_NaN_rate_sent)
  show "TranslateText (env_post scenario_env) ''Hello'' = Inr privet_utf8"
    by (rule TranslateText_scenario)
  show "NewSpeechClient (env_dial scenario_env) (w_speaker world0) =
          (Inr \<lparr>sp_client = 1\<rparr>, \<lparr>speaker = Some \<lparr>sp_client = 1\<rparr>, attempts = 1, dialed = [1]\<rparr>)"
    by (simp add: NewSpeechClient_def scenario_env_def world0_def speaker_init_def Let_def)
qed (simp_all add: privet_utf8_not_Nil)

text \<open>
  C22.  Without \<open>-text\<close> the empty text is still sent for translation, and the
  empty-text check is made on the translation, not on the input: \<open>Run\<close> ends with exit 2,
  the translation request and the text-required error exactly when the service returns an
  empty translation.
\<close>

theorem cli_Run_empty_text_translated:
  assumes "TranslateText (env_post env) '''' = Inr t"
  shows "cli_Run pf env [''-o'', out] w =
           (2, w\<lparr>w_log := w_log w @ [EvPost (translate_payload ''''),
                  EvStderr ''Error validating flags: '' (CliValidate ErrTextRequired)]\<rparr>)
         \<longleftrightarrow> t = []"
proof -
  have p: "parse_flags pf [''-o'', out] flag_defaults = Inr (flag_defaults\<lparr>fl_out := out\<rparr>, [])"
    by (simp add: flags_eval)
  have tr: "TranslateText (env_post env) (fl_text (flag_defaults\<lparr>fl_out := out\<rparr>)) = Inr t"
    using assms by (simp add: flag_defaults_def)
  show ?thesis
  proof (cases "t = []")
    case True
    with tr show ?thesis
      unfolding cli_Run_def p by (simp add: log_event_def model_defs makeSpeechOptions_def flag_defaults_def)
  next
    case False
    then have ne: "makeSpeechOptions t v o' r q \<noteq> Inl ErrTextRequired" for v o' r q
      by (simp add: makeSpeechOptions_def Let_def split: option.split)
    from tr ne False show ?thesis
      unfolding cli_Run_def p
      by (auto simp: log_event_def Let_def model_defs flag_defaults_def world_log_update_eq
               split: sum.splits prod.splits option.splits)
  qed
qed

lemma cli_Run_empty_text_translated_witness:
  "cli_Run (\<lambda>_. None)
     (scenario_env\<lparr>env_post := (\<lambda>_ _ _. Inr \<lparr>StatusCode = 200,
                     Body = BodyValue (JObject [(''translatedText'', JString '''')])\<rparr>)\<rparr>)
     [''-o'', ''out.mp3''] world0 =
   (2, world0\<lparr>w_log := w_log world0 @ [EvPost (translate_payload ''''),
                         EvStderr ''Error validating flags: '' (CliValidate ErrTextRequired)]\<rparr>)"
proof -
  have "TranslateText (env_post (scenario_env\<lparr>env_post := (\<lambda>_ _ _. Inr \<lparr>StatusCode = 200,
          Body = BodyValue (JObject [(''translatedText'', JString '''')])\<rparr>)\<rparr>)) '''' = Inr ''''"
    by (simp add: TranslateText_def decode_response_def translatedText_key_def)
  from cli_Run_empty_text_translated [OF this, of "\<lambda>_. None" "''out.mp3''" world0]
  show ?thesis by simp
qed

end
