(* ===== verification/Spec2Isabelle.thy ===== *)
theory Spec2Isabelle
  imports Cli
begin

text \<open>
  \<^bold>\<open>A verification model of go-TextEN2VoiceRU.\<close>

  The program (\<open>src/main.go\<close>, \<open>src/cmd/cmd.go\<close>, \<open>src/speech/speaker.go\<close>) reads
  command-line flags, sends the English text to a translation service over HTTP, checks
  and shapes the speech options, asks a remote text-to-speech service for audio of the
  Russian text and writes the audio to a file.  Its parts, leaves first:
  \<^item> the option validator \<open>makeSpeechOptions\<close> (cmd.go), pure;
  \<^item> the speech client (speaker.go): the constants, \<open>SpeechOptions\<close>, the process-wide
    \<open>speaker\<close> singleton created lazily by \<open>NewSpeechClient\<close>, \<open>NewRequest\<close> and
    \<open>Speaker.Run\<close>;
  \<^item> the translation client \<open>TranslateText\<close> (cmd.go);
  \<^item> the orchestrator \<open>CLI.Run\<close> (cmd.go) with its flag parsing and exit codes, and
    \<open>main\<close> (main.go) which passes \<open>os.Args[1:]\<close> to it.

  \<^bold>\<open>Theories.\<close>
  \<^item> \<open>TTS_Prelude\<close>: the types that name Go values (\<open>bytes\<close>, opaque \<open>go_error\<close>,
    \<open>exit_code\<close>), the collections \<open>go_eval\<close> (evaluation rules for concrete inputs)
    and \<open>model_defs\<close> (the program's fixed constants), generic list and character lemmas.
  \<^item> \<open>Go_Lib\<close>: the library behaviour the program's decisions depend on, modelled from
    Go's documentation: IEEE comparison of \<open>float64\<close> (type \<open>f64\<close>: a finite value as
    the real it denotes, the two infinities, NaN; \<open>f64_lt\<close> is Go's \<open><\<close>),
    \<open>strings.ToLower\<close> (\<open>go_ToLower\<close>, byte-wise ASCII lowering; the text block there
    explains why this agrees with Go on every comparison the program makes) and
    \<open>filepath.Ext\<close> (\<open>go_Ext\<close>, the backward scan of Go's loop), with their lemmas:
    \<open>go_Ext\<close> returns a suffix that is empty or a dot followed by neither dot nor slash.
  \<^item> \<open>Speaker\<close>: speaker.go.  The voice constants and encodings are definitions; the
    struct \<open>SpeechOptions\<close> and the protobuf request messages are records; the singleton
    is the field \<open>speaker\<close> of a \<open>speaker_state\<close> record, which also keeps, as
    bookkeeping of the model, the number of connection attempts and the list of
    connections created.  The service's connection constructor and its
    \<open>SynthesizeSpeech\<close> call are oracle arguments (\<open>dial_oracle\<close>,
    \<open>synth_oracle\<close>), so every theorem holds for every answer of the service.
    \<open>speaker_reach\<close> is the inductive set of states reachable by any sequence of
    \<open>NewSpeechClient\<close> calls; the invariant \<open>singleton_inv\<close> is proved by rule induction.
  \<^item> \<open>Speech_Options\<close>: \<open>makeSpeechOptions\<close> with its voice \<open>switch\<close>
    (\<open>voice_switch\<close>) and error type \<open>opt_error\<close> (one constructor per
    \<open>fmt.Errorf\<close>), and the contract of the specification (\<open>voice_table\<close>,
    \<open>ext_table\<close>, \<open>rate_ok\<close>, \<open>pitch_ok\<close>, \<open>options_wf\<close>).  The lemma
    \<open>makeSpeechOptions_contract_form\<close> rewrites the code into the contract's vocabulary;
    the properties are read off it: the refinement of the contract for finite values, the
    well-formedness of every result, each error branch as an equivalence, case-insensitive
    voice matching, the encoding chosen by the extension, and the NaN gap of the range
    guards.  It also relates \<open>NewRequest\<close> with nil options to the validator: that
    request is not the one of any validated options value.
  \<^item> \<open>Translate\<close>: \<open>TranslateText\<close>.  The payload and response structs are
    records; the request is the payload record handed to the HTTP oracle
    (\<open>http_oracle\<close>: URL, content type, payload to a transport error or a response).
    \<open>json.Marshal\<close> of the payload cannot fail (strings and an int), so its error
    branch is absent; the body's bytes are not modelled yet.  The response body is what
    \<open>json.Decoder.Decode\<close> reads (\<open>body_read\<close>: end of input, syntax error, or a
    \<open>json\<close> value); the decoding into \<open>responsePayload\<close> follows \<open>encoding/json\<close>:
    key matching by \<open>foldName\<close> (\<open>fold_match\<close>, which knows the two non-ASCII runes
    that fold to ASCII letters), \<open>null\<close> as a no-op, the first type error returned.
    Lemmas: the result depends only on the one fixed request; status and transport errors;
    a 200 answer without the field yields the empty string; for ASCII keys the field is
    selected exactly by the keys that spell \<open>translatedText\<close> up to case.
  \<^item> \<open>Cli\<close>: \<open>CLI.Run\<close> (\<open>cli_Run\<close>) and \<open>main\<close> (\<open>main_go\<close>).  Flag parsing is
    \<open>parse_flags\<close>, the loop of \<open>flag.FlagSet.Parse\<close> for the five flags of \<open>Run\<close>
    (structural recursion on the argument list: each step consumes one or two arguments),
    with \<open>strconv.ParseFloat\<close> as the argument \<open>pf\<close>.  The state is a \<open>world\<close>
    record: the speaker singleton, the file system as a map from paths to contents, and a
    log of the observable events in order (translation request, synthesis request, file
    write, messages).  The services are an \<open>env\<close> record of oracles; a failed write may
    leave any content at the output path, as \<open>os.WriteFile\<close> may.  Lemmas: the whole
    success path and its event order, exit 2 after the translation request on every
    validation error, exit 3 on a non-200 translation status, exit 1 on a flag error
    before any request, the exit code is one of the five and the file system is untouched
    unless the write was reached, a NaN rate reaches the speech service, and the empty
    input text is sent for translation, the text-required error following exactly when
    the translation is empty.  The end-to-end scenarios of the specification
    (section 8) are the witnesses, over the fixture environments \<open>scenario_env\<close> and
    \<open>scenario_env_500\<close>.

  \<^bold>\<open>Findings.\<close>  NaN passes both range guards (\<open>makeSpeechOptions_NaN_accepted\<close>,
  \<open>cli_Run_NaN_rate_sent\<close>); validation happens after the translation request, so an
  unknown voice or an unsupported extension exits with 2 only after a network call, and
  with 3 if the translator fails (\<open>cli_Run_validation_error_after_translation\<close>); the
  empty-text check is on the translated text (\<open>cli_Run_empty_text_translated\<close>); a 200
  answer without \<open>translatedText\<close> is not a decode error (\<open>TranslateText_missing_field\<close>);
  the usage text of \<open>-o\<close> names OGG_OPUS, which no options value ever has
  (\<open>makeSpeechOptions_wf\<close>); \<open>NewRequest\<close> with nil options sends rate 0.0
  (\<open>NewRequest_nil_defaults\<close>).

  \<^bold>\<open>Plan for the next sittings.\<close>
  \<^enum> the bytes of the request body: \<open>json.Marshal\<close> of the payload with Go's string
    escaping (HTML-safe escapes, invalid UTF-8 replaced), and a round trip with a JSON
    string decoder for valid UTF-8 text;
  \<^enum> the concurrent first use of the singleton (specification section 5) as an inductive
    interleaving of two goroutines running \<open>NewSpeechClient\<close> in three steps (read the
    variable, dial, store), with a reachable state in which two connections exist;
  \<^enum> more of the flag parser: \<open>-name=value\<close> and \<open>-name value\<close> agree, \<open>--\<close> ends
    the flags, later occurrences override earlier ones.

  \<^bold>\<open>Not modelled.\<close>  The HTTP transport, the gRPC transport and the file system
  are outside the program and appear only as oracles; so does the usage text the flag
  package prints.  The text of the messages is not rendered (the errors keep their
  operands instead, since \<open>%g\<close> formatting of floats is not modelled);
  \<open>strconv.ParseFloat\<close> is an argument of the flag parser, not a definition.  No
  bound or fuel is needed anywhere: every loop of the program or of the library code it
  depends on (\<open>filepath.Ext\<close>, key folding, member decoding, flag parsing) is
  structural recursion on a list.
\<close>

end
